theory Spec2Isabelle
  imports Complex_Main
begin

section \<open>Numbers: numpy's float64 with exact finite arithmetic\<close>

text \<open>
  \<^verbatim>\<open>GeoCartConversion.py\<close> computes with numpy's \<^verbatim>\<open>float64\<close> and with Python floats.
  Both are IEEE-754 doubles. The model keeps the special values of the format (the two
  infinities, NaN and the negative zero), because the program's behaviour at its
  singular inputs is decided by them, and it computes the finite values exactly, as real
  numbers: rounding, overflow and underflow are not modelled. \<open>Num 0\<close> is \<^verbatim>\<open>+0.0\<close> and
  \<open>NegZero\<close> is \<^verbatim>\<open>-0.0\<close>.
\<close>

datatype float64 = Num real | NegZero | PosInf | NegInf | NaN

fun is_fin :: "float64 \<Rightarrow> bool" where
  "is_fin (Num r) = True"
| "is_fin NegZero = True"
| "is_fin PosInf = False"
| "is_fin NegInf = False"
| "is_fin NaN = False"

fun val :: "float64 \<Rightarrow> real" where
  "val (Num r) = r"
| "val NegZero = 0"
| "val PosInf = 0"
| "val NegInf = 0"
| "val NaN = 0"

fun signbit :: "float64 \<Rightarrow> bool" where
  "signbit (Num r) = (r < 0)"
| "signbit NegZero = True"
| "signbit PosInf = False"
| "signbit NegInf = True"
| "signbit NaN = False"

definition mk :: "real \<Rightarrow> bool \<Rightarrow> float64" where
  \<comment> \<open>a finite result with the sign its zero gets\<close>
  "mk r neg = (if r = 0 \<and> neg then NegZero else Num r)"

definition inf_of :: "bool \<Rightarrow> float64" where
  "inf_of neg = (if neg then NegInf else PosInf)"

definition fmul :: "float64 \<Rightarrow> float64 \<Rightarrow> float64" where
  "fmul a b =
     (if a = NaN \<or> b = NaN then NaN
      else if is_fin a \<and> is_fin b then mk (val a * val b) (signbit a \<noteq> signbit b)
      else if (is_fin a \<and> val a = 0) \<or> (is_fin b \<and> val b = 0) then NaN
      else inf_of (signbit a \<noteq> signbit b))"

definition fadd :: "float64 \<Rightarrow> float64 \<Rightarrow> float64" where
  "fadd a b =
     (if a = NaN \<or> b = NaN then NaN
      else if is_fin a \<and> is_fin b then mk (val a + val b) (signbit a \<and> signbit b)
      else if is_fin a then b
      else if is_fin b then a
      else if a = b then a else NaN)"

fun fneg :: "float64 \<Rightarrow> float64" where
  "fneg (Num r) = (if r = 0 then NegZero else Num (- r))"
| "fneg NegZero = Num 0"
| "fneg PosInf = NegInf"
| "fneg NegInf = PosInf"
| "fneg NaN = NaN"

definition fsub :: "float64 \<Rightarrow> float64 \<Rightarrow> float64" where
  "fsub a b = fadd a (fneg b)"

definition fdiv :: "float64 \<Rightarrow> float64 \<Rightarrow> float64" where
  \<comment> \<open>numpy's division: a zero divisor gives an infinity or NaN, never an exception\<close>
  "fdiv a b =
     (if a = NaN \<or> b = NaN then NaN
      else if is_fin a \<and> is_fin b then
        (if val b = 0 then (if val a = 0 then NaN else inf_of (signbit a \<noteq> signbit b))
         else mk (val a / val b) (signbit a \<noteq> signbit b))
      else if is_fin b then inf_of (signbit a \<noteq> signbit b)
      else if is_fin a then mk 0 (signbit a \<noteq> signbit b)
      else NaN)"

fun fsqrt :: "float64 \<Rightarrow> float64" where
  "fsqrt (Num r) = (if r < 0 then NaN else Num (sqrt r))"
| "fsqrt NegZero = NegZero"
| "fsqrt PosInf = PosInf"
| "fsqrt NegInf = NaN"
| "fsqrt NaN = NaN"

fun farctan :: "float64 \<Rightarrow> float64" where
  "farctan (Num r) = Num (arctan r)"
| "farctan NegZero = NegZero"
| "farctan PosInf = Num (pi / 2)"
| "farctan NegInf = Num (- (pi / 2))"
| "farctan NaN = NaN"

fun fabs :: "float64 \<Rightarrow> float64" where
  "fabs (Num r) = Num \<bar>r\<bar>"
| "fabs NegZero = Num 0"
| "fabs PosInf = PosInf"
| "fabs NegInf = PosInf"
| "fabs NaN = NaN"

definition fsquare :: "float64 \<Rightarrow> float64" where
  "fsquare a = fmul a a"

fun fsin :: "float64 \<Rightarrow> float64" where
  "fsin (Num r) = Num (sin r)"
| "fsin NegZero = NegZero"
| "fsin PosInf = NaN"
| "fsin NegInf = NaN"
| "fsin NaN = NaN"

fun fcos :: "float64 \<Rightarrow> float64" where
  "fcos (Num r) = Num (cos r)"
| "fcos NegZero = Num 1"
| "fcos PosInf = NaN"
| "fcos NegInf = NaN"
| "fcos NaN = NaN"

fun fless :: "float64 \<Rightarrow> float64 \<Rightarrow> bool" where
  "fless NaN b = False"
| "fless a NaN = False"
| "fless PosInf b = False"
| "fless a NegInf = False"
| "fless NegInf b = True"
| "fless a PosInf = True"
| "fless a b = (val a < val b)"

section \<open>Latitude and height from the projected point\<close>

text \<open>
  \<^verbatim>\<open>step3(H, p_E, z_E, p_G, z_G)\<close>, lines 23 to 29. Inside \<^verbatim>\<open>xyzllh\<close> the
  arguments \<^verbatim>\<open>p_E\<close> and \<^verbatim>\<open>z_E\<close> are elements of a numpy array, so the division
  by \<^verbatim>\<open>p_E\<close> is numpy's. The Python list of two elements it returns is a pair.
\<close>

definition step3 :: "float64 \<Rightarrow> float64 \<Rightarrow> float64 \<Rightarrow> float64 \<Rightarrow> float64 \<Rightarrow> float64 \<times> float64" where
  "step3 H p_E z_E p_G z_G =
     (let tan_phi = fdiv (fmul (fmul H H) z_E) p_E;
          phi = fmul (farctan tan_phi) (Num (180 / pi));
          h = fsqrt (fadd (fsquare (fsub p_E p_G)) (fsquare (fsub z_E z_G)));
          h' = (if fless (fadd p_G (fabs z_G)) (fadd p_E (fabs z_E)) then fneg h else h)
      in (phi, h'))"

section \<open>Python division, exceptions, the interpreter state\<close>

text \<open>
  The ellipsoid parameters \<^verbatim>\<open>a\<close> and \<^verbatim>\<open>b\<close> are Python numbers (the defaults
  \<^verbatim>\<open>6378\<close> and \<^verbatim>\<open>6356\<close> are Python ints), so \<^verbatim>\<open>b/a\<close> and \<^verbatim>\<open>a/b\<close> are
  Python's true division, which raises \<^verbatim>\<open>ZeroDivisionError\<close> on a zero divisor. The
  file defines and raises no exception of its own; the only other exceptions a call can
  end with are those raised inside \<^verbatim>\<open>scipy.optimize.root\<close>.
\<close>

datatype pyerror = ZeroDivisionError | SolverRaised

definition pydiv :: "float64 \<Rightarrow> float64 \<Rightarrow> pyerror + float64" where
  "pydiv a b = (if is_fin b \<and> val b = 0 then Inl ZeroDivisionError else Inr (fdiv a b))"

text \<open>
  The coordinates \<^verbatim>\<open>x\<close> and \<^verbatim>\<open>y\<close> reach \<^verbatim>\<open>xyzllh\<close> either as Python numbers (a
  direct call such as \<^verbatim>\<open>xyzllh(0, 6378, 0)\<close>) or as numpy \<^verbatim>\<open>float64\<close> values (the ones
  \<^verbatim>\<open>llhxyz\<close> returns, which the repository's caller passes on). Only the division
  \<^verbatim>\<open>y/x\<close> of line 48 tells them apart: it is Python's, and raises on \<open>x = 0\<close>, when both
  operands are Python numbers, and numpy's, which never raises, as soon as one operand is
  a numpy value. Every other division of the call has a numpy divisor.
\<close>

datatype coords = PythonNumbers | NumpyFloats

definition div_yx :: "coords \<Rightarrow> float64 \<Rightarrow> float64 \<Rightarrow> pyerror + float64" where
  "div_yx c y x = (case c of PythonNumbers \<Rightarrow> pydiv y x | NumpyFloats \<Rightarrow> Inr (fdiv y x))"

text \<open>
  What a call can change outside its own frame: the module-level variable
  \<^verbatim>\<open>iters\<close> (declared \<^verbatim>\<open>global\<close> in \<^verbatim>\<open>xyzllh\<close> and in the closure
  \<^verbatim>\<open>fun\<close>) and the standard output. A printed line is kept as the \<^verbatim>\<open>print\<close> call
  that wrote it, with the values it formats.
\<close>

datatype printed =
    LambdaLine float64 float64
  | TraceLine float64 float64 float64
  | RootLine float64 float64
  | FinalLine float64 float64 float64
  | Lambda1Line float64
  | ItersLine int

record pystate =
  iters :: int
  stdout :: "printed list"

section \<open>The root finder, a parameter\<close>

text \<open>
  \<^verbatim>\<open>scipy.optimize.root\<close> is a library outside the repository. It is a parameter of
  the model: a function of the residual, the starting point, the Jacobian and the
  method name, which yields the points at which it evaluated the residual, in order,
  and then either raises or returns its result object. Of the result object the code
  reads the field \<^verbatim>\<open>x\<close>; the field \<^verbatim>\<open>success\<close> is the solver's own report of
  convergence.
\<close>

type_synonym vec = "float64 \<times> float64"

type_synonym mat = "vec \<times> vec"

record optimize_result =
  sol_x :: vec
  sol_success :: bool

record solver_run =
  calls :: "vec list"
  outcome :: "pyerror + optimize_result"

type_synonym solver = "(vec \<Rightarrow> vec) \<Rightarrow> vec \<Rightarrow> (vec \<Rightarrow> mat) \<Rightarrow> string \<Rightarrow> solver_run"

text \<open>
  A family of solvers to run the model on: one residual evaluation at the starting
  point, then the result object with the given point and convergence report.
\<close>

definition sample_solver :: "vec \<Rightarrow> bool \<Rightarrow> solver" where
  "sample_solver pt ok f x0 j m =
     \<lparr>calls = [x0], outcome = Inr \<lparr>sol_x = pt, sol_success = ok\<rparr>\<rparr>"

text \<open>The solver that returns its starting point as converged after one evaluation.\<close>

definition start_solver :: solver where
  "start_solver f x0 j m =
     \<lparr>calls = [x0], outcome = Inr \<lparr>sol_x = x0, sol_success = True\<rparr>\<rparr>"

text \<open>
  The same solver with another report of convergence: the evaluations and the point it
  returns are unchanged, the field \<^verbatim>\<open>success\<close> is set to \<open>ok\<close>.
\<close>

definition report_as :: "bool \<Rightarrow> solver \<Rightarrow> solver" where
  "report_as ok S f x0 j m =
     (let run = S f x0 j m
      in run\<lparr>outcome := (case outcome run of
                            Inl e \<Rightarrow> Inl e
                          | Inr res \<Rightarrow> Inr (res\<lparr>sol_success := ok\<rparr>))\<rparr>)"

section \<open>Cartesian to geodetic\<close>

text \<open>
  The closure \<^verbatim>\<open>fun\<close> of \<^verbatim>\<open>xyzllh\<close> (lines 66 to 72): its value, and what one call
  of it does to the state. The closure \<^verbatim>\<open>jac\<close> (lines 75 to 78).
\<close>

definition fun_value :: "float64 \<Rightarrow> float64 \<Rightarrow> float64 \<Rightarrow> float64 \<Rightarrow> float64 \<Rightarrow> vec \<Rightarrow> vec" where
  "fun_value G H K p_G z_G v =
     (let pe = fst v; ze = snd v
      in (fsub (fmul (fmul (fsub pe p_G) H) ze) (fmul (fmul (fsub ze z_G) G) pe),
          fsub (fadd (fmul (fmul G pe) pe) (fmul (fmul H ze) ze)) K))"

definition fun_effect :: "float64 \<Rightarrow> float64 \<Rightarrow> float64 \<Rightarrow> float64 \<Rightarrow> bool \<Rightarrow> pystate \<Rightarrow> vec \<Rightarrow> pystate" where
  "fun_effect H p_G z_G lambda_2 trace st v =
     (let pe = fst v; ze = snd v;
          s3 = step3 H pe ze p_G z_G;
          st1 = st\<lparr>iters := iters st + 1\<rparr>
      in if trace then st1\<lparr>stdout := stdout st1 @ [TraceLine (fst s3) lambda_2 (snd s3)]\<rparr>
         else st1)"

definition jac :: "float64 \<Rightarrow> float64 \<Rightarrow> float64 \<Rightarrow> float64 \<Rightarrow> vec \<Rightarrow> mat" where
  "jac G H p_G z_G v =
     (let pe = fst v; ze = snd v
      in ((fsub (fmul H ze) (fmul (fsub ze z_G) G), fsub (fmul (fsub pe p_G) H) (fmul G pe)),
          (fmul (fmul (Num 2) G) pe, fmul (fmul (Num 2) H) ze)))"

text \<open>
  \<^verbatim>\<open>xyzllh(x, y, z, a, b, trace, method)\<close>, lines 31 to 95, with the kind \<open>c\<close> of the
  coordinates. Line 45 resets \<^verbatim>\<open>iters\<close>; line 48 divides \<^verbatim>\<open>y\<close> by \<^verbatim>\<open>x\<close> and, when
  that raises, the call ends there, before anything is printed and before the root
  finder is called. The result is the exception or the returned 4-tuple, with the state
  after the call.
\<close>

definition xyzllh ::
  "solver \<Rightarrow> coords \<Rightarrow> float64 \<Rightarrow> float64 \<Rightarrow> float64 \<Rightarrow> float64 \<Rightarrow> float64 \<Rightarrow> bool \<Rightarrow> string
     \<Rightarrow> pystate \<Rightarrow> (pyerror + float64 \<times> float64 \<times> float64 \<times> int) \<times> pystate" where
  "xyzllh S c x y z a b trace method st =
     (let st0 = st\<lparr>iters := 0\<rparr>
      in case div_yx c y x of
           Inl e \<Rightarrow> (Inl e, st0)
         | Inr q \<Rightarrow>
            (let lambda_1 = fmul (farctan q) (Num (180 / pi));
                 w = fsqrt (fadd (fmul x x) (fmul y y));
                 lambda_2 = fmul (fmul (Num 2) (farctan (fdiv y (fadd x w)))) (Num (180 / pi));
                 st1 = (if trace then st0\<lparr>stdout := stdout st0 @ [LambdaLine lambda_1 lambda_2]\<rparr>
                        else st0);
                 p_G = fsqrt (fadd (fmul x x) (fmul y y));
                 z_G = z
             in case pydiv b a of
                  Inl e \<Rightarrow> (Inl e, st1)
                | Inr G \<Rightarrow>
                   (case pydiv a b of
                      Inl e \<Rightarrow> (Inl e, st1)
                    | Inr H \<Rightarrow>
                       (let K = fmul a b;
                            r = fdiv (Num 1) (fsqrt (fadd (fmul p_G p_G) (fmul z_G z_G)));
                            p_start = fmul (fmul a p_G) r;
                            z_start = fmul (fmul b z_G) r;
                            run = S (fun_value G H K p_G z_G) (p_start, z_start) (jac G H p_G z_G) method;
                            st2 = foldl (fun_effect H p_G z_G lambda_2 trace) st1 (calls run)
                        in case outcome run of
                             Inl e \<Rightarrow> (Inl e, st2)
                           | Inr res \<Rightarrow>
                              (let root = sol_x res;
                                   st3 = st2\<lparr>stdout := stdout st2 @ [RootLine (fst root) (snd root)]\<rparr>;
                                   toret = step3 H (fst root) (snd root) p_G z_G;
                                   st4 = (if trace
                                          then st3\<lparr>stdout := stdout st3 @
                                                 [FinalLine (fst toret) lambda_2 (snd toret),
                                                  Lambda1Line lambda_1, ItersLine (iters st3)]\<rparr>
                                          else st3)
                               in (Inr (fst toret, lambda_2, snd toret, iters st4), st4))))))"

section \<open>Geodetic to Cartesian\<close>

text \<open>
  \<^verbatim>\<open>llhxyz(lat, long, h, a, b)\<close>, lines 98 to 110. The division \<^verbatim>\<open>b/a\<close> is
  Python's; the division by \<^verbatim>\<open>np.sqrt(...)\<close> is numpy's.
\<close>

definition llhxyz ::
  "float64 \<Rightarrow> float64 \<Rightarrow> float64 \<Rightarrow> float64 \<Rightarrow> float64 \<Rightarrow> pyerror + float64 \<times> float64 \<times> float64" where
  "llhxyz lat long h a b =
     (let lat' = fmul lat (Num (pi / 180));
          long' = fmul long (Num (pi / 180))
      in case pydiv b a of
           Inl e \<Rightarrow> Inl e
         | Inr q \<Rightarrow>
            (let e_2 = fsub (Num 1) (fsquare q);
                 N = fdiv a (fsqrt (fsub (Num 1) (fmul e_2 (fsquare (fsin lat')))));
                 x = fmul (fmul (fadd N h) (fcos lat')) (fcos long');
                 y = fmul (fmul (fadd N h) (fcos lat')) (fsin long');
                 z = fmul (fadd (fmul (fsub (Num 1) e_2) N) h) (fsin lat')
             in Inr (x, y, z)))"

section \<open>The quantities of a call to xyzllh\<close>

text \<open>
  Names for the local variables of \<^verbatim>\<open>xyzllh\<close>, as functions of its arguments: whether
  line 48 raises, the two longitudes (the first one an exception when line 48 raises),
  \<^verbatim>\<open>p_G\<close>, the starting point \<^verbatim>\<open>[p_start, z_start]\<close>, the call of the root finder with
  \<^verbatim>\<open>G = b/a\<close>, \<^verbatim>\<open>H = a/b\<close>, \<^verbatim>\<open>K = a*b\<close>, and the lines the closure \<^verbatim>\<open>fun\<close> prints.
  The lemmas \<open>xyzllh_line48_raises\<close>, \<open>xyzllh_zero_division\<close>, \<open>xyzllh_solver_raises\<close>
  and \<open>xyzllh_solver_returns\<close> below connect them with \<open>xyzllh\<close>.
\<close>

definition line48_raises :: "coords \<Rightarrow> float64 \<Rightarrow> bool" where
  "line48_raises c x = (c = PythonNumbers \<and> is_fin x \<and> val x = 0)"

definition lambda_1_of :: "coords \<Rightarrow> float64 \<Rightarrow> float64 \<Rightarrow> pyerror + float64" where
  "lambda_1_of c x y =
     (case div_yx c y x of
        Inl e \<Rightarrow> Inl e
      | Inr q \<Rightarrow> Inr (fmul (farctan q) (Num (180 / pi))))"

definition lambda_2_of :: "float64 \<Rightarrow> float64 \<Rightarrow> float64" where
  "lambda_2_of x y =
     fmul (fmul (Num 2) (farctan (fdiv y (fadd x (fsqrt (fadd (fmul x x) (fmul y y))))))) (Num (180 / pi))"

definition p_G_of :: "float64 \<Rightarrow> float64 \<Rightarrow> float64" where
  "p_G_of x y = fsqrt (fadd (fmul x x) (fmul y y))"

definition start_of :: "float64 \<Rightarrow> float64 \<Rightarrow> float64 \<Rightarrow> float64 \<Rightarrow> vec" where
  "start_of a b p_G z_G =
     (fmul (fmul a p_G) (fdiv (Num 1) (fsqrt (fadd (fmul p_G p_G) (fmul z_G z_G)))),
      fmul (fmul b z_G) (fdiv (Num 1) (fsqrt (fadd (fmul p_G p_G) (fmul z_G z_G)))))"

definition solver_call :: "solver \<Rightarrow> float64 \<Rightarrow> float64 \<Rightarrow> float64 \<Rightarrow> float64 \<Rightarrow> float64 \<Rightarrow> string \<Rightarrow> solver_run" where
  "solver_call S x y z a b method =
     S (fun_value (fdiv b a) (fdiv a b) (fmul a b) (p_G_of x y) z)
       (start_of a b (p_G_of x y) z)
       (jac (fdiv b a) (fdiv a b) (p_G_of x y) z) method"

definition trace_lines :: "float64 \<Rightarrow> float64 \<Rightarrow> float64 \<Rightarrow> float64 \<Rightarrow> bool \<Rightarrow> vec list \<Rightarrow> printed list" where
  "trace_lines H p_G z_G lambda_2 trace vs =
     (if trace
      then map (\<lambda>v. TraceLine (fst (step3 H (fst v) (snd v) p_G z_G)) lambda_2
                               (snd (step3 H (fst v) (snd v) p_G z_G))) vs
      else [])"

section \<open>Finite arithmetic agrees with the reals\<close>

lemma is_fin_mk [simp]: "is_fin (mk r n)"
  by (simp add: mk_def)

lemma val_mk [simp]: "val (mk r n) = r"
  by (simp add: mk_def)

lemma fmul_fin [simp]:
  "is_fin a \<Longrightarrow> is_fin b \<Longrightarrow> is_fin (fmul a b)"
  "is_fin a \<Longrightarrow> is_fin b \<Longrightarrow> val (fmul a b) = val a * val b"
  by (cases a; cases b; simp add: fmul_def)+

lemma fadd_fin [simp]:
  "is_fin a \<Longrightarrow> is_fin b \<Longrightarrow> is_fin (fadd a b)"
  "is_fin a \<Longrightarrow> is_fin b \<Longrightarrow> val (fadd a b) = val a + val b"
  by (cases a; cases b; simp add: fadd_def)+

lemma fneg_fin [simp]:
  "is_fin a \<Longrightarrow> is_fin (fneg a)"
  "is_fin a \<Longrightarrow> val (fneg a) = - val a"
  by (cases a; simp)+

lemma fsub_fin [simp]:
  "is_fin a \<Longrightarrow> is_fin b \<Longrightarrow> is_fin (fsub a b)"
  "is_fin a \<Longrightarrow> is_fin b \<Longrightarrow> val (fsub a b) = val a - val b"
  by (simp_all add: fsub_def)

lemma fdiv_fin [simp]:
  "is_fin a \<Longrightarrow> is_fin b \<Longrightarrow> val b \<noteq> 0 \<Longrightarrow> is_fin (fdiv a b)"
  "is_fin a \<Longrightarrow> is_fin b \<Longrightarrow> val b \<noteq> 0 \<Longrightarrow> val (fdiv a b) = val a / val b"
  by (cases a; cases b; simp add: fdiv_def)+

lemma fsqrt_fin [simp]:
  "is_fin a \<Longrightarrow> 0 \<le> val a \<Longrightarrow> is_fin (fsqrt a)"
  "is_fin a \<Longrightarrow> 0 \<le> val a \<Longrightarrow> val (fsqrt a) = sqrt (val a)"
  by (cases a; simp)+

lemma farctan_fin [simp]:
  "is_fin a \<Longrightarrow> is_fin (farctan a)"
  "is_fin a \<Longrightarrow> val (farctan a) = arctan (val a)"
  by (cases a; simp)+

lemma fabs_fin [simp]:
  "is_fin a \<Longrightarrow> is_fin (fabs a)"
  "is_fin a \<Longrightarrow> val (fabs a) = \<bar>val a\<bar>"
  by (cases a; simp)+

lemma fsquare_fin [simp]:
  "is_fin a \<Longrightarrow> is_fin (fsquare a)"
  "is_fin a \<Longrightarrow> val (fsquare a) = (val a)\<^sup>2"
  by (simp_all add: fsquare_def power2_eq_square)

lemma fsin_fin [simp]:
  "is_fin a \<Longrightarrow> is_fin (fsin a)"
  "is_fin a \<Longrightarrow> val (fsin a) = sin (val a)"
  by (cases a; simp)+

lemma fcos_fin [simp]:
  "is_fin a \<Longrightarrow> is_fin (fcos a)"
  "is_fin a \<Longrightarrow> val (fcos a) = cos (val a)"
  by (cases a; simp)+

lemma fless_fin [simp]:
  "is_fin a \<Longrightarrow> is_fin b \<Longrightarrow> fless a b = (val a < val b)"
  by (cases a; cases b; simp)

lemmas float_ops = fmul_def fadd_def fsub_def fdiv_def fsquare_def mk_def inf_of_def

lemma signbit_fin: "is_fin a \<Longrightarrow> val a \<noteq> 0 \<Longrightarrow> signbit a = (val a < 0)"
  by (cases a; simp)


lemma fdiv_zero_zero:
  "is_fin n \<Longrightarrow> is_fin d \<Longrightarrow> val n = 0 \<Longrightarrow> val d = 0 \<Longrightarrow> fdiv n d = NaN"
  by (cases n; cases d; simp add: fdiv_def)


section \<open>step3: latitude and signed height\<close>

lemma step3_fst:
  "fst (step3 H p_E z_E p_G z_G) =
     fmul (farctan (fdiv (fmul (fmul H H) z_E) p_E)) (Num (180 / pi))"
  by (simp add: step3_def Let_def)

lemma step3_snd:
  "snd (step3 H p_E z_E p_G z_G) =
     (if fless (fadd p_G (fabs z_G)) (fadd p_E (fabs z_E))
      then fneg (fsqrt (fadd (fsquare (fsub p_E p_G)) (fsquare (fsub z_E z_G))))
      else fsqrt (fadd (fsquare (fsub p_E p_G)) (fsquare (fsub z_E z_G))))"
  by (simp add: step3_def Let_def)

text \<open>
  C3. For finite arguments with \<open>p_E \<noteq> 0\<close>, \<^verbatim>\<open>step3\<close> returns the latitude
  \<open>arctan (H\<^sup>2 z_E / p_E)\<close> in degrees and a finite height whose magnitude is the
  distance \<open>sqrt ((p_E - p_G)\<^sup>2 + (z_E - z_G)\<^sup>2)\<close>; the height is negative exactly when
  \<open>p_G + \<bar>z_G\<bar> < p_E + \<bar>z_E\<bar>\<close>.
\<close>

theorem step3_postconditions:
  assumes "is_fin H" "is_fin p_E" "is_fin z_E" "is_fin p_G" "is_fin z_G" "val p_E \<noteq> 0"
  shows "is_fin (fst (step3 H p_E z_E p_G z_G))
       \<and> val (fst (step3 H p_E z_E p_G z_G)) = arctan ((val H)\<^sup>2 * val z_E / val p_E) * (180 / pi)
       \<and> is_fin (snd (step3 H p_E z_E p_G z_G))
       \<and> \<bar>val (snd (step3 H p_E z_E p_G z_G))\<bar> = sqrt ((val p_E - val p_G)\<^sup>2 + (val z_E - val z_G)\<^sup>2)
       \<and> (val (snd (step3 H p_E z_E p_G z_G)) < 0 \<longleftrightarrow> val p_G + \<bar>val z_G\<bar> < val p_E + \<bar>val z_E\<bar>)"
proof -
  let ?d = "(val p_E - val p_G)\<^sup>2 + (val z_E - val z_G)\<^sup>2"
  let ?D = "fadd (fsquare (fsub p_E p_G)) (fsquare (fsub z_E z_G))"
  have D: "is_fin ?D" "val ?D = ?d" using assms by simp_all
  have d0: "0 \<le> ?d" by simp
  have S: "is_fin (fsqrt ?D)" "val (fsqrt ?D) = sqrt ?d"
    using D d0 by simp_all
  have c: "fless (fadd p_G (fabs z_G)) (fadd p_E (fabs z_E)) = (val p_G + \<bar>val z_G\<bar> < val p_E + \<bar>val z_E\<bar>)"
    using assms by simp
  have lat1: "is_fin (fst (step3 H p_E z_E p_G z_G))"
    unfolding step3_fst using assms by simp
  have lat2: "val (fst (step3 H p_E z_E p_G z_G)) = arctan ((val H)\<^sup>2 * val z_E / val p_E) * (180 / pi)"
    unfolding step3_fst using assms by (simp add: power2_eq_square)
  have pos: "0 < sqrt ?d" if "val p_G + \<bar>val z_G\<bar> < val p_E + \<bar>val z_E\<bar>"
  proof -
    have "val p_E - val p_G \<noteq> 0 \<or> val z_E - val z_G \<noteq> 0" using that by auto
    then have "0 < ?d" by (simp only: sum_power2_gt_zero_iff)
    then show ?thesis by simp
  qed
  have h1: "is_fin (snd (step3 H p_E z_E p_G z_G))"
    unfolding step3_snd using S by simp
  have h2: "\<bar>val (snd (step3 H p_E z_E p_G z_G))\<bar> = sqrt ?d"
    unfolding step3_snd using S d0 by simp
  have h3: "(val (snd (step3 H p_E z_E p_G z_G)) < 0 \<longleftrightarrow> val p_G + \<bar>val z_G\<bar> < val p_E + \<bar>val z_E\<bar>)"
  proof (cases "val p_G + \<bar>val z_G\<bar> < val p_E + \<bar>val z_E\<bar>")
    case True
    then show ?thesis unfolding step3_snd c using S pos by simp
  next
    case False
    then show ?thesis unfolding step3_snd c using S by (simp add: not_less)
  qed
  show ?thesis using lat1 lat2 h1 h2 h3 by blast
qed

text \<open>
  The point \<open>(p_G, z_G) = (3, 0)\<close> outside the ellipse and its projection \<open>(1, 0)\<close>:
  latitude 0, height 2, not negative.
\<close>

theorem step3_postconditions_witness:
  "is_fin (fst (step3 (Num 2) (Num 1) (Num 0) (Num 3) (Num 0)))
   \<and> val (fst (step3 (Num 2) (Num 1) (Num 0) (Num 3) (Num 0))) = 0
   \<and> \<bar>val (snd (step3 (Num 2) (Num 1) (Num 0) (Num 3) (Num 0)))\<bar> = 2
   \<and> \<not> val (snd (step3 (Num 2) (Num 1) (Num 0) (Num 3) (Num 0))) < 0"
  using step3_postconditions [of "Num 2" "Num 1" "Num 0" "Num 3" "Num 0"] by simp




section \<open>xyzllh: the three ways a call ends\<close>

lemma pydiv_ok: "\<not> (is_fin b \<and> val b = 0) \<Longrightarrow> pydiv a b = Inr (fdiv a b)"
  by (simp add: pydiv_def)

lemma pydiv_zero: "is_fin b \<Longrightarrow> val b = 0 \<Longrightarrow> pydiv a b = Inl ZeroDivisionError"
  by (simp add: pydiv_def)

lemma foldl_fun_effect_iters:
  "iters (foldl (fun_effect H p_G z_G l2 tr) st vs) = iters st + int (length vs)"
  by (induction vs arbitrary: st) (simp_all add: fun_effect_def Let_def)

lemma foldl_fun_effect_stdout:
  "stdout (foldl (fun_effect H p_G z_G l2 tr) st vs) = stdout st @ trace_lines H p_G z_G l2 tr vs"
  by (induction vs arbitrary: st) (simp_all add: fun_effect_def Let_def trace_lines_def)

lemma foldl_fun_effect_more:
  "pystate.more (foldl (fun_effect H p_G z_G l2 tr) st vs) = pystate.more st"
  by (induction vs arbitrary: st) (simp_all add: fun_effect_def Let_def)

lemma foldl_fun_effect:
  "foldl (fun_effect H p_G z_G l2 tr) st vs =
     st\<lparr>iters := iters st + int (length vs),
        stdout := stdout st @ trace_lines H p_G z_G l2 tr vs\<rparr>"
  by (rule pystate.equality)
     (simp_all add: foldl_fun_effect_iters foldl_fun_effect_stdout foldl_fun_effect_more)

lemma div_yx_raises: "line48_raises c x \<Longrightarrow> div_yx c y x = Inl ZeroDivisionError"
  by (simp add: line48_raises_def div_yx_def pydiv_def)

lemma div_yx_ok: "\<not> line48_raises c x \<Longrightarrow> div_yx c y x = Inr (fdiv y x)"
  by (cases c) (auto simp add: line48_raises_def div_yx_def pydiv_def)

lemma lambda_1_of_raises: "line48_raises c x \<Longrightarrow> lambda_1_of c x y = Inl ZeroDivisionError"
  by (simp add: lambda_1_of_def div_yx_raises)

lemma lambda_1_of_ok:
  "\<not> line48_raises c x \<Longrightarrow> lambda_1_of c x y = Inr (fmul (farctan (fdiv y x)) (Num (180 / pi)))"
  by (simp add: lambda_1_of_def div_yx_ok)

lemma lambda_1_of_InrD:
  assumes "lambda_1_of c x y = Inr l1"
  shows "\<not> line48_raises c x" "div_yx c y x = Inr (fdiv y x)"
    "l1 = fmul (farctan (fdiv y x)) (Num (180 / pi))"
proof -
  show n: "\<not> line48_raises c x"
    using assms lambda_1_of_raises[of c x y] by auto
  show "div_yx c y x = Inr (fdiv y x)" using n by (rule div_yx_ok)
  show "l1 = fmul (farctan (fdiv y x)) (Num (180 / pi))"
    using assms lambda_1_of_ok[OF n, of y] by simp
qed

lemma xyzllh_line48_raises:
  assumes "line48_raises c x"
  shows "xyzllh S c x y z a b trace method st = (Inl ZeroDivisionError, st\<lparr>iters := 0\<rparr>)"
  by (simp add: xyzllh_def Let_def div_yx_raises[OF assms])

lemma xyzllh_zero_division:
  assumes "lambda_1_of c x y = Inr l1"
      and "(is_fin a \<and> val a = 0) \<or> (is_fin b \<and> val b = 0)"
  shows "xyzllh S c x y z a b trace method st =
     (Inl ZeroDivisionError,
      st\<lparr>iters := 0,
         stdout := stdout st @ (if trace then [LambdaLine l1 (lambda_2_of x y)] else [])\<rparr>)"
  using assms(2)
  by (auto simp add: xyzllh_def Let_def pydiv_def lambda_2_of_def lambda_1_of_InrD(2,3)[OF assms(1)])

lemma xyzllh_solver_raises:
  assumes "lambda_1_of c x y = Inr l1"
      and "\<not> (is_fin a \<and> val a = 0)" "\<not> (is_fin b \<and> val b = 0)"
      and "outcome (solver_call S x y z a b method) = Inl e"
  shows "xyzllh S c x y z a b trace method st =
     (Inl e,
      st\<lparr>iters := int (length (calls (solver_call S x y z a b method))),
         stdout := stdout st @ (if trace then [LambdaLine l1 (lambda_2_of x y)] else [])
            @ trace_lines (fdiv a b) (p_G_of x y) z (lambda_2_of x y) trace
                (calls (solver_call S x y z a b method))\<rparr>)"
  using assms(4) unfolding solver_call_def start_of_def p_G_of_def
  by (simp add: xyzllh_def Let_def pydiv_ok[OF assms(2)] pydiv_ok[OF assms(3)] foldl_fun_effect
      lambda_2_of_def p_G_of_def lambda_1_of_InrD(2,3)[OF assms(1)])

lemma xyzllh_solver_returns:
  assumes "lambda_1_of c x y = Inr l1"
      and "\<not> (is_fin a \<and> val a = 0)" "\<not> (is_fin b \<and> val b = 0)"
      and "outcome (solver_call S x y z a b method) = Inr res"
  shows "xyzllh S c x y z a b trace method st =
     (Inr (fst (step3 (fdiv a b) (fst (sol_x res)) (snd (sol_x res)) (p_G_of x y) z),
           lambda_2_of x y,
           snd (step3 (fdiv a b) (fst (sol_x res)) (snd (sol_x res)) (p_G_of x y) z),
           int (length (calls (solver_call S x y z a b method)))),
      st\<lparr>iters := int (length (calls (solver_call S x y z a b method))),
         stdout := stdout st @ (if trace then [LambdaLine l1 (lambda_2_of x y)] else [])
            @ trace_lines (fdiv a b) (p_G_of x y) z (lambda_2_of x y) trace
                (calls (solver_call S x y z a b method))
            @ [RootLine (fst (sol_x res)) (snd (sol_x res))]
            @ (if trace
               then [FinalLine (fst (step3 (fdiv a b) (fst (sol_x res)) (snd (sol_x res)) (p_G_of x y) z))
                       (lambda_2_of x y)
                       (snd (step3 (fdiv a b) (fst (sol_x res)) (snd (sol_x res)) (p_G_of x y) z)),
                     Lambda1Line l1,
                     ItersLine (int (length (calls (solver_call S x y z a b method))))]
               else [])\<rparr>)"
  using assms(4) unfolding solver_call_def start_of_def p_G_of_def
  by (simp add: xyzllh_def Let_def pydiv_ok[OF assms(2)] pydiv_ok[OF assms(3)] foldl_fun_effect
      lambda_2_of_def p_G_of_def lambda_1_of_InrD(2,3)[OF assms(1)])

lemma xyzllh_fst_cases:
  assumes "\<not> line48_raises c x" "\<not> (is_fin a \<and> val a = 0)" "\<not> (is_fin b \<and> val b = 0)"
  shows "fst (xyzllh S c x y z a b trace method st) =
     (case outcome (solver_call S x y z a b method) of
        Inl e \<Rightarrow> Inl e
      | Inr res \<Rightarrow>
          Inr (fst (step3 (fdiv a b) (fst (sol_x res)) (snd (sol_x res)) (p_G_of x y) z),
               lambda_2_of x y,
               snd (step3 (fdiv a b) (fst (sol_x res)) (snd (sol_x res)) (p_G_of x y) z),
               int (length (calls (solver_call S x y z a b method)))))"
proof (cases "outcome (solver_call S x y z a b method)")
  case (Inl e)
  then show ?thesis
    by (simp add: xyzllh_solver_raises[OF lambda_1_of_ok[OF assms(1)] assms(2,3) Inl])
next
  case (Inr res)
  then show ?thesis
    by (simp add: xyzllh_solver_returns[OF lambda_1_of_ok[OF assms(1)] assms(2,3) Inr])
qed

lemma not_line48_raises [simp]:
  "\<not> line48_raises NumpyFloats x" "val x \<noteq> 0 \<Longrightarrow> \<not> line48_raises c x"
  by (simp_all add: line48_raises_def)

lemma start_solver_call:
  "solver_call start_solver x y z a b method =
     \<lparr>calls = [start_of a b (p_G_of x y) z],
      outcome = Inr \<lparr>sol_x = start_of a b (p_G_of x y) z, sol_success = True\<rparr>\<rparr>"
  by (simp add: solver_call_def start_solver_def)

lemma sample_solver_call:
  "solver_call (sample_solver pt ok) x y z a b method =
     \<lparr>calls = [start_of a b (p_G_of x y) z],
      outcome = Inr \<lparr>sol_x = pt, sol_success = ok\<rparr>\<rparr>"
  by (simp add: solver_call_def sample_solver_def)





lemma solver_call_report_as:
  "solver_call (report_as ok S) x y z a b method =
     (solver_call S x y z a b method)
       \<lparr>outcome := (case outcome (solver_call S x y z a b method) of
                      Inl e \<Rightarrow> Inl e
                    | Inr res \<Rightarrow> Inr (res\<lparr>sol_success := ok\<rparr>))\<rparr>"
  by (simp add: solver_call_def report_as_def Let_def)

lemma p_G_of_axis: "is_fin x \<Longrightarrow> val x = 0 \<Longrightarrow> is_fin y \<Longrightarrow> val y = 0 \<Longrightarrow> p_G_of x y = Num 0"
  by (cases x; cases y; simp add: p_G_of_def float_ops)

lemma lambda_2_of_axis:
  "is_fin x \<Longrightarrow> val x = 0 \<Longrightarrow> is_fin y \<Longrightarrow> val y = 0 \<Longrightarrow> lambda_2_of x y = NaN"
  by (cases x; cases y; simp add: lambda_2_of_def float_ops)

lemma fmul_zero_inf: "is_fin c \<Longrightarrow> val c = 0 \<Longrightarrow> fmul c PosInf = NaN"
  by (cases c; simp add: fmul_def)

lemma start_of_centre:
  assumes "is_fin a" "is_fin b" "is_fin z" "val z = 0"
  shows "start_of a b (Num 0) z = (NaN, NaN)"
proof -
  have r: "fdiv (Num 1) (fsqrt (fadd (fmul (Num 0) (Num 0)) (fmul z z))) = PosInf"
    using assms(3,4) by (cases z; simp add: float_ops)
  have "is_fin (fmul a (Num 0))" "val (fmul a (Num 0)) = 0"
       "is_fin (fmul b z)" "val (fmul b z) = 0"
    using assms by simp_all
  then show ?thesis
    unfolding start_of_def r by (simp add: fmul_zero_inf)
qed

section \<open>llhxyz: the closed form\<close>

lemma llhxyz_ok:
  assumes "\<not> (is_fin a \<and> val a = 0)"
  shows "llhxyz lat long h a b =
    Inr (fmul (fmul (fadd (fdiv a (fsqrt (fsub (Num 1) (fmul (fsub (Num 1) (fsquare (fdiv b a))) (fsquare (fsin (fmul lat (Num (pi / 180))))))))) h) (fcos (fmul lat (Num (pi / 180))))) (fcos (fmul long (Num (pi / 180)))),
         fmul (fmul (fadd (fdiv a (fsqrt (fsub (Num 1) (fmul (fsub (Num 1) (fsquare (fdiv b a))) (fsquare (fsin (fmul lat (Num (pi / 180))))))))) h) (fcos (fmul lat (Num (pi / 180))))) (fsin (fmul long (Num (pi / 180)))),
         fmul (fadd (fmul (fsub (Num 1) (fsub (Num 1) (fsquare (fdiv b a)))) (fdiv a (fsqrt (fsub (Num 1) (fmul (fsub (Num 1) (fsquare (fdiv b a))) (fsquare (fsin (fmul lat (Num (pi / 180)))))))))) h) (fsin (fmul lat (Num (pi / 180)))))"
  using assms by (simp add: llhxyz_def pydiv_ok Let_def)

lemma radicand_pos:
  fixes a b s :: real
  assumes "0 < b" "b \<le> a" "s\<^sup>2 \<le> 1"
  shows "0 < 1 - (1 - (b / a)\<^sup>2) * s\<^sup>2"
proof -
  define q where "q = (b / a)\<^sup>2"
  define t where "t = s\<^sup>2"
  have a: "0 < a" using assms by simp
  have q: "0 < q" unfolding q_def using assms a by simp
  have q1: "q \<le> 1" unfolding q_def using assms a by (simp add: power_le_one_iff)
  have t: "t \<le> 1" unfolding t_def using assms by simp
  have "(1 - q) * t \<le> (1 - q) * 1"
    using q1 t by (intro mult_left_mono) simp_all
  then have "(1 - q) * t \<le> 1 - q" by simp
  then have "0 < 1 - (1 - q) * t" using q by linarith
  then show ?thesis unfolding q_def t_def .
qed

text \<open>
  C7. For finite \<open>lat\<close>, \<open>long\<close>, \<open>h\<close> in degrees and an ellipsoid with
  \<open>a \<ge> b > 0\<close>, \<^verbatim>\<open>llhxyz\<close> raises nothing and returns the finite triple
  \<open>x = (N + h) cos lat cos long\<close>, \<open>y = (N + h) cos lat sin long\<close>,
  \<open>z = ((1 - e\<^sup>2) N + h) sin lat\<close> with \<open>e\<^sup>2 = 1 - (b/a)\<^sup>2\<close> and
  \<open>N = a / sqrt (1 - e\<^sup>2 sin\<^sup>2 lat)\<close>, the angles converted to radians. The function is
  one expression: there is no loop in it.
\<close>

theorem llhxyz_closed_form:
  assumes "is_fin lat" "is_fin long" "is_fin h" "is_fin a" "is_fin b"
      and "0 < val b" "val b \<le> val a"
  shows "\<exists>X Y Z. llhxyz lat long h a b = Inr (X, Y, Z)
      \<and> is_fin X \<and> is_fin Y \<and> is_fin Z
      \<and> (let phi = val lat * (pi / 180); lam = val long * (pi / 180);
              e2 = 1 - (val b / val a)\<^sup>2;
              N = val a / sqrt (1 - e2 * (sin phi)\<^sup>2)
          in val X = (N + val h) * cos phi * cos lam
           \<and> val Y = (N + val h) * cos phi * sin lam
           \<and> val Z = ((1 - e2) * N + val h) * sin phi)"
proof -
  let ?phi = "val lat * (pi / 180)"
  let ?e2 = "1 - (val b / val a)\<^sup>2"
  let ?R = "fsub (Num 1) (fmul (fsub (Num 1) (fsquare (fdiv b a))) (fsquare (fsin (fmul lat (Num (pi / 180))))))"
  have a0: "val a \<noteq> 0" using assms by simp
  have q: "is_fin (fdiv b a)" "val (fdiv b a) = val b / val a" using assms a0 by simp_all
  have R: "is_fin ?R" "val ?R = 1 - ?e2 * (sin ?phi)\<^sup>2"
    using assms q by simp_all
  have Rpos: "0 < val ?R"
    unfolding R(2) using assms(6,7) by (intro radicand_pos) (simp_all add: abs_square_le_1)
  have sq: "is_fin (fsqrt ?R)" "val (fsqrt ?R) = sqrt (1 - ?e2 * (sin ?phi)\<^sup>2)" "val (fsqrt ?R) \<noteq> 0"
    using R Rpos by simp_all
  have N: "is_fin (fdiv a (fsqrt ?R))" "val (fdiv a (fsqrt ?R)) = val a / sqrt (1 - ?e2 * (sin ?phi)\<^sup>2)"
    using assms sq by simp_all
  have ok: "\<not> (is_fin a \<and> val a = 0)" using a0 by simp
  show ?thesis
    unfolding llhxyz_ok[OF ok] using assms q N by (simp add: Let_def)
qed

text \<open>On the equator of the ellipsoid \<open>a = 2\<close>, \<open>b = 1\<close>, at height 3: the point \<open>(5, 0, 0)\<close>.\<close>

theorem llhxyz_closed_form_witness:
  "\<exists>X Y Z. llhxyz (Num 0) (Num 0) (Num 3) (Num 2) (Num 1) = Inr (X, Y, Z)
      \<and> is_fin X \<and> is_fin Y \<and> is_fin Z \<and> val X = 5 \<and> val Y = 0 \<and> val Z = 0"
  using llhxyz_closed_form [of "Num 0" "Num 0" "Num 3" "Num 2" "Num 1"] by (simp add: Let_def)

section \<open>The ellipsoid parameters are not validated\<close>

text \<open>
  C6, as stated, fails: neither function inspects \<^verbatim>\<open>a\<close> and \<^verbatim>\<open>b\<close>. With
  \<open>a = 1 < b = 2\<close> the forward conversion of \<open>(0, 0, 0)\<close> returns \<open>(1, 0, 0)\<close>.
\<close>

theorem llhxyz_malformed_counterexample:
  "llhxyz (Num 0) (Num 0) (Num 0) (Num 1) (Num 2) = Inr (Num 1, Num 0, Num 0)"
  by (simp add: llhxyz_ok fmul_def fdiv_def fsub_def fadd_def fsquare_def mk_def)

text \<open>
  C6, amended. For finite \<open>a \<noteq> 0\<close> and \<open>b \<noteq> 0\<close>, whatever their signs and order,
  \<^verbatim>\<open>llhxyz\<close> returns a triple, and \<^verbatim>\<open>xyzllh\<close>, on coordinates for which the division
  of line 48 does not raise (numpy coordinates, or \<open>x \<noteq> 0\<close>), raises only what the root
  finder raises and returns a tuple whenever the root finder returns.
\<close>

theorem no_ellipsoid_validation:
  assumes "is_fin a" "is_fin b" "val a \<noteq> 0" "val b \<noteq> 0"
      and "\<not> line48_raises c x"
  shows "(\<exists>r. llhxyz lat long h a b = Inr r)
       \<and> (\<forall>e. fst (xyzllh S c x y z a b trace method st) = Inl e
              \<longrightarrow> outcome (solver_call S x y z a b method) = Inl e)
       \<and> (\<forall>res. outcome (solver_call S x y z a b method) = Inr res
              \<longrightarrow> (\<exists>r. fst (xyzllh S c x y z a b trace method st) = Inr r))"
proof -
  have a: "\<not> (is_fin a \<and> val a = 0)" and b: "\<not> (is_fin b \<and> val b = 0)"
    using assms by simp_all
  have "\<exists>r. llhxyz lat long h a b = Inr r"
    by (simp add: llhxyz_ok[OF a])
  moreover have "\<forall>e. fst (xyzllh S c x y z a b trace method st) = Inl e
              \<longrightarrow> outcome (solver_call S x y z a b method) = Inl e"
    unfolding xyzllh_fst_cases[OF assms(5) a b] by (simp split: sum.splits)
  moreover have "\<forall>res. outcome (solver_call S x y z a b method) = Inr res
              \<longrightarrow> (\<exists>r. fst (xyzllh S c x y z a b trace method st) = Inr r)"
    unfolding xyzllh_fst_cases[OF assms(5) a b] by simp
  ultimately show ?thesis by blast
qed

text \<open>
  The malformed ellipsoid \<open>a = 1\<close>, \<open>b = 2\<close>, in both directions; the point \<open>(1, 0, 0)\<close>
  passed as Python numbers.
\<close>

theorem no_ellipsoid_validation_witness:
  "(\<exists>r. llhxyz (Num 0) (Num 0) (Num 0) (Num 1) (Num 2) = Inr r)
   \<and> (\<exists>r. fst (xyzllh start_solver PythonNumbers (Num 1) (Num 0) (Num 0) (Num 1) (Num 2) False
              ''broyden1'' \<lparr>iters = 0, stdout = []\<rparr>) = Inr r)"
  using no_ellipsoid_validation [where a = "Num 1" and b = "Num 2" and c = PythonNumbers
      and x = "Num 1" and y = "Num 0" and z = "Num 0" and lat = "Num 0" and long = "Num 0"
      and h = "Num 0" and S = start_solver and trace = False
      and st = "\<lparr>iters = 0, stdout = []\<rparr>", of "''broyden1''"]
  by (simp add: start_solver_call)

section \<open>The problem given to the root finder\<close>




section \<open>The convergence report is not read\<close>

text \<open>
  C4, as stated, fails: \<^verbatim>\<open>xyzllh\<close> takes the field \<^verbatim>\<open>x\<close> of the root finder's result
  and never reads \<^verbatim>\<open>success\<close>. Here the root finder gives up at \<open>(1, 0)\<close>, a point off
  the ellipse \<open>a = 2\<close>, \<open>b = 1\<close>, and reports no convergence; \<^verbatim>\<open>xyzllh\<close> returns a
  tuple all the same.
\<close>

theorem xyzllh_unconverged_counterexample:
  "outcome (solver_call (sample_solver (Num 1, Num 0) False) (Num 1) (Num 0) (Num 0) (Num 2) (Num 1)
      ''broyden1'') = Inr \<lparr>sol_x = (Num 1, Num 0), sol_success = False\<rparr>
   \<and> fst (xyzllh (sample_solver (Num 1, Num 0) False) PythonNumbers (Num 1) (Num 0) (Num 0)
          (Num 2) (Num 1) False ''broyden1'' \<lparr>iters = 0, stdout = []\<rparr>)
       = Inr (Num 0, Num 0, Num 0, 1)"
  by (simp add: xyzllh_fst_cases sample_solver_call step3_def Let_def p_G_of_def lambda_2_of_def
      float_ops)

text \<open>
  C4, amended. On coordinates for which the division of line 48 does not raise (numpy
  coordinates, or \<open>x \<noteq> 0\<close>), with nonzero \<open>a\<close> and \<open>b\<close>: whenever the root finder
  returns, converged or not, \<^verbatim>\<open>xyzllh\<close> returns \<^verbatim>\<open>step3\<close> of the returned point, the
  longitude, and the number of residual evaluations; what the root finder reports as
  \<^verbatim>\<open>success\<close> changes neither the result nor the state after the call.
\<close>

theorem xyzllh_ignores_convergence:
  assumes "\<not> line48_raises c x"
      and "\<not> (is_fin a \<and> val a = 0)" "\<not> (is_fin b \<and> val b = 0)"
      and "outcome (solver_call S x y z a b method) = Inr res"
  shows "xyzllh (report_as ok S) c x y z a b trace method st = xyzllh S c x y z a b trace method st
       \<and> fst (xyzllh S c x y z a b trace method st) =
           Inr (fst (step3 (fdiv a b) (fst (sol_x res)) (snd (sol_x res)) (p_G_of x y) z),
                lambda_2_of x y,
                snd (step3 (fdiv a b) (fst (sol_x res)) (snd (sol_x res)) (p_G_of x y) z),
                int (length (calls (solver_call S x y z a b method))))"
proof -
  note l1 = lambda_1_of_ok[OF assms(1), of y]
  have r: "outcome (solver_call (report_as ok S) x y z a b method) = Inr (res\<lparr>sol_success := ok\<rparr>)"
    and c: "calls (solver_call (report_as ok S) x y z a b method) = calls (solver_call S x y z a b method)"
    using assms(4) by (simp_all add: solver_call_report_as)
  have "xyzllh (report_as ok S) c x y z a b trace method st = xyzllh S c x y z a b trace method st"
    unfolding xyzllh_solver_returns[OF l1 assms(2,3) r] xyzllh_solver_returns[OF l1 assms(2,3,4)] c
    by simp
  moreover have "fst (xyzllh S c x y z a b trace method st) =
           Inr (fst (step3 (fdiv a b) (fst (sol_x res)) (snd (sol_x res)) (p_G_of x y) z),
                lambda_2_of x y,
                snd (step3 (fdiv a b) (fst (sol_x res)) (snd (sol_x res)) (p_G_of x y) z),
                int (length (calls (solver_call S x y z a b method))))"
    unfolding xyzllh_solver_returns[OF l1 assms(2,3,4)] by simp
  ultimately show ?thesis by blast
qed

text \<open>
  The point \<open>(1, 0, 0)\<close> inside the ellipsoid \<open>a = 2\<close>, \<open>b = 1\<close>, passed as Python numbers,
  with the report set to failure.
\<close>

theorem xyzllh_ignores_convergence_witness:
  "xyzllh (report_as False start_solver) PythonNumbers (Num 1) (Num 0) (Num 0) (Num 2) (Num 1) False
       ''broyden1'' \<lparr>iters = 0, stdout = []\<rparr>
     = xyzllh start_solver PythonNumbers (Num 1) (Num 0) (Num 0) (Num 2) (Num 1) False ''broyden1''
       \<lparr>iters = 0, stdout = []\<rparr>
   \<and> fst (xyzllh start_solver PythonNumbers (Num 1) (Num 0) (Num 0) (Num 2) (Num 1) False
       ''broyden1'' \<lparr>iters = 0, stdout = []\<rparr>) = Inr (Num 0, Num 0, Num (- 1), 1)"
  using xyzllh_ignores_convergence [where c = PythonNumbers and x = "Num 1" and y = "Num 0"
      and z = "Num 0" and a = "Num 2" and b = "Num 1" and S = start_solver
      and ok = False and trace = False
      and res = "\<lparr>sol_x = start_of (Num 2) (Num 1) (p_G_of (Num 1) (Num 0)) (Num 0), sol_success = True\<rparr>"
      and st = "\<lparr>iters = 0, stdout = []\<rparr>", of "''broyden1''"]
  by (simp add: start_solver_call step3_def Let_def p_G_of_def lambda_2_of_def start_of_def float_ops)

section \<open>Points on the rotation axis\<close>

text \<open>
  C5, as stated, fails: \<^verbatim>\<open>xyzllh\<close> tests neither \<open>x = y = 0\<close> nor \<open>p_G = z_G = 0\<close>. For
  the pole \<open>(0, 0, 1)\<close> of the ellipsoid \<open>a = 2\<close>, \<open>b = 1\<close>, passed as numpy \<^verbatim>\<open>float64\<close>
  values, the starting point \<open>(0, 1)\<close> is already the root, and the call returns
  latitude 90, height 0 and the longitude NaN, the value of \<open>0/0\<close>.
\<close>

theorem xyzllh_rotation_axis_counterexample:
  "fst (xyzllh start_solver NumpyFloats (Num 0) (Num 0) (Num 1) (Num 2) (Num 1) False ''broyden1''
         \<lparr>iters = 0, stdout = []\<rparr>) = Inr (Num 90, NaN, Num 0, 1)"
  by (simp add: xyzllh_fst_cases start_solver_call step3_def Let_def p_G_of_def lambda_2_of_def
      start_of_def float_ops)

text \<open>
  C5, amended. For numpy \<^verbatim>\<open>float64\<close> coordinates with \<open>x = y = 0\<close> (either zero),
  finite \<open>z\<close> and finite nonzero \<open>a\<close>, \<open>b\<close>: the longitude is NaN; \<^verbatim>\<open>xyzllh\<close> raises only
  what the root finder raises; when the root finder returns, the call returns a tuple
  whose longitude is NaN; and if \<open>z = 0\<close> as well, the starting point handed to the root
  finder is \<open>(NaN, NaN)\<close>, the value of \<open>a 0 \<infinity>\<close> and \<open>b 0 \<infinity>\<close>.
\<close>

theorem xyzllh_rotation_axis:
  assumes "is_fin x" "val x = 0" "is_fin y" "val y = 0" "is_fin z"
      and "is_fin a" "val a \<noteq> 0" "is_fin b" "val b \<noteq> 0"
  shows "lambda_2_of x y = NaN
       \<and> (\<forall>e. fst (xyzllh S NumpyFloats x y z a b trace method st) = Inl e
              \<longrightarrow> outcome (solver_call S x y z a b method) = Inl e)
       \<and> (\<forall>res. outcome (solver_call S x y z a b method) = Inr res
              \<longrightarrow> fst (xyzllh S NumpyFloats x y z a b trace method st) =
                    Inr (fst (step3 (fdiv a b) (fst (sol_x res)) (snd (sol_x res)) (Num 0) z),
                         NaN,
                         snd (step3 (fdiv a b) (fst (sol_x res)) (snd (sol_x res)) (Num 0) z),
                         int (length (calls (solver_call S x y z a b method)))))
       \<and> (val z = 0 \<longrightarrow> start_of a b (p_G_of x y) z = (NaN, NaN))"
proof -
  have a: "\<not> (is_fin a \<and> val a = 0)" and b: "\<not> (is_fin b \<and> val b = 0)"
    using assms by simp_all
  have n: "\<not> line48_raises NumpyFloats x" by simp
  note pG = p_G_of_axis[OF assms(1-4)]
  note l2 = lambda_2_of_axis[OF assms(1-4)]
  have 2: "\<forall>e. fst (xyzllh S NumpyFloats x y z a b trace method st) = Inl e
              \<longrightarrow> outcome (solver_call S x y z a b method) = Inl e"
    unfolding xyzllh_fst_cases[OF n a b] by (simp split: sum.splits)
  have 3: "\<forall>res. outcome (solver_call S x y z a b method) = Inr res
              \<longrightarrow> fst (xyzllh S NumpyFloats x y z a b trace method st) =
                    Inr (fst (step3 (fdiv a b) (fst (sol_x res)) (snd (sol_x res)) (Num 0) z),
                         NaN,
                         snd (step3 (fdiv a b) (fst (sol_x res)) (snd (sol_x res)) (Num 0) z),
                         int (length (calls (solver_call S x y z a b method))))"
    unfolding xyzllh_fst_cases[OF n a b] by (simp add: pG l2)
  have 4: "val z = 0 \<longrightarrow> start_of a b (p_G_of x y) z = (NaN, NaN)"
    unfolding pG using start_of_centre[OF assms(6,8,5)] by simp
  show ?thesis using l2 2 3 4 by blast
qed

text \<open>The centre of the ellipsoid \<open>a = 2\<close>, \<open>b = 1\<close>, with \<open>x = -0.0\<close>.\<close>

theorem xyzllh_rotation_axis_witness:
  "lambda_2_of NegZero (Num 0) = NaN
   \<and> fst (xyzllh start_solver NumpyFloats NegZero (Num 0) (Num 0) (Num 2) (Num 1) False ''broyden1''
         \<lparr>iters = 0, stdout = []\<rparr>) =
       Inr (fst (step3 (fdiv (Num 2) (Num 1)) NaN NaN (Num 0) (Num 0)), NaN,
            snd (step3 (fdiv (Num 2) (Num 1)) NaN NaN (Num 0) (Num 0)), 1)
   \<and> start_of (Num 2) (Num 1) (p_G_of NegZero (Num 0)) (Num 0) = (NaN, NaN)"
  using xyzllh_rotation_axis [where x = NegZero and y = "Num 0" and z = "Num 0" and a = "Num 2"
      and b = "Num 1" and S = start_solver and trace = False
      and st = "\<lparr>iters = 0, stdout = []\<rparr>", of "''broyden1''"]
  by (simp add: start_solver_call)

section \<open>The negative x-axis\<close>

text \<open>
  C10. For \<open>y = 0\<close> and finite \<open>x < 0\<close>, with nonzero \<open>a\<close>, \<open>b\<close> and a root finder that
  returns, for Python or numpy coordinates alike: \<open>w = sqrt (x\<^sup>2 + y\<^sup>2) = -x\<close>, so the
  denominator \<open>x + w\<close> is \<open>0\<close>, the quotient \<open>y / (x + w)\<close> is \<open>0/0 = NaN\<close>, and the call
  returns, with no exception, a tuple whose longitude is NaN.
\<close>

theorem xyzllh_negative_x_axis:
  assumes "is_fin x" "val x < 0" "is_fin y" "val y = 0"
      and "\<not> (is_fin a \<and> val a = 0)" "\<not> (is_fin b \<and> val b = 0)"
      and "outcome (solver_call S x y z a b method) = Inr res"
  shows "fadd x (fsqrt (fadd (fmul x x) (fmul y y))) = Num 0
       \<and> fdiv y (fadd x (fsqrt (fadd (fmul x x) (fmul y y)))) = NaN
       \<and> lambda_2_of x y = NaN
       \<and> (\<exists>lat h n. fst (xyzllh S c x y z a b trace method st) = Inr (lat, NaN, h, n))"
proof -
  obtain r where x: "x = Num r" "r < 0" using assms(1,2) by (cases x) simp_all
  have n: "\<not> line48_raises c x" using assms(2) by simp
  have d: "fadd x (fsqrt (fadd (fmul x x) (fmul y y))) = Num 0"
    using x assms(3,4) by (cases y; simp add: float_ops not_less mult_le_0_iff)
  have q: "fdiv y (Num 0) = NaN"
    using assms(3,4) by (intro fdiv_zero_zero) simp_all
  have l: "lambda_2_of x y = NaN"
    unfolding lambda_2_of_def d q by (simp add: fmul_def)
  have "\<exists>lat h n. fst (xyzllh S c x y z a b trace method st) = Inr (lat, NaN, h, n)"
    unfolding xyzllh_solver_returns[OF lambda_1_of_ok[OF n] assms(5,6,7)] l by simp
  then show ?thesis using d q l by simp
qed

text \<open>The point \<open>(-1, 0, 0)\<close>, passed as Python numbers, and the ellipsoid \<open>a = 2\<close>, \<open>b = 1\<close>.\<close>

theorem xyzllh_negative_x_axis_witness:
  "fadd (Num (- 1)) (fsqrt (fadd (fmul (Num (- 1)) (Num (- 1))) (fmul (Num 0) (Num 0)))) = Num 0
   \<and> lambda_2_of (Num (- 1)) (Num 0) = NaN
   \<and> (\<exists>lat h n. fst (xyzllh start_solver PythonNumbers (Num (- 1)) (Num 0) (Num 0) (Num 2) (Num 1)
          False ''broyden1'' \<lparr>iters = 0, stdout = []\<rparr>) = Inr (lat, NaN, h, n))"
  using xyzllh_negative_x_axis [where x = "Num (- 1)" and y = "Num 0" and z = "Num 0"
      and a = "Num 2" and b = "Num 1" and S = start_solver and c = PythonNumbers
      and trace = False
      and res = "\<lparr>sol_x = start_of (Num 2) (Num 1) (p_G_of (Num (- 1)) (Num 0)) (Num 0),
          sol_success = True\<rparr>"
      and st = "\<lparr>iters = 0, stdout = []\<rparr>", of "''broyden1''"]
  by (simp add: start_solver_call)

section \<open>What a call does to the interpreter state\<close>

text \<open>
  C9, as stated, fails: line 86 prints the root on every call that reaches it, and lines
  45 and 68 assign the module-level \<^verbatim>\<open>iters\<close>. A call that starts with \<open>iters = 5\<close> and
  an empty output ends with \<open>iters = 1\<close> and one printed line.
\<close>

theorem xyzllh_effects_counterexample:
  "snd (xyzllh start_solver PythonNumbers (Num 1) (Num 0) (Num 0) (Num 2) (Num 1) False ''broyden1''
         \<lparr>iters = 5, stdout = []\<rparr>) = \<lparr>iters = 1, stdout = [RootLine (Num 2) (Num 0)]\<rparr>"
  by (simp add: xyzllh_solver_returns[OF lambda_1_of_ok] start_solver_call trace_lines_def
      p_G_of_def start_of_def float_ops)

text \<open>
  C9, amended. A call does write: it appends to the standard output, by at least the
  root line whenever it returns a tuple, and it overwrites the module-level \<^verbatim>\<open>iters\<close>.
  It reads nothing of the state it finds: the result, the final \<^verbatim>\<open>iters\<close> and the lines
  appended are the same from any two starting states. The count a call returns is the
  final value of \<^verbatim>\<open>iters\<close>, the number of residual evaluations of this call.
\<close>

theorem xyzllh_effects:
  "fst (xyzllh S c x y z a b trace method st) = fst (xyzllh S c x y z a b trace method st')
   \<and> iters (snd (xyzllh S c x y z a b trace method st))
       = iters (snd (xyzllh S c x y z a b trace method st'))
   \<and> (\<exists>out. stdout (snd (xyzllh S c x y z a b trace method st)) = stdout st @ out
          \<and> stdout (snd (xyzllh S c x y z a b trace method st')) = stdout st' @ out)
   \<and> (\<forall>lat lon h n. fst (xyzllh S c x y z a b trace method st) = Inr (lat, lon, h, n)
         \<longrightarrow> n = iters (snd (xyzllh S c x y z a b trace method st))
           \<and> n = int (length (calls (solver_call S x y z a b method)))
           \<and> stdout (snd (xyzllh S c x y z a b trace method st)) \<noteq> stdout st)"
proof (cases "line48_raises c x")
  case True
  show ?thesis
    unfolding xyzllh_line48_raises[OF True] by simp
next
  case n: False
  note l1 = lambda_1_of_ok[OF n, of y]
  show ?thesis
  proof (cases "(is_fin a \<and> val a = 0) \<or> (is_fin b \<and> val b = 0)")
    case True
    show ?thesis
      unfolding xyzllh_zero_division[OF l1 True] by simp
  next
    case False
    then have a: "\<not> (is_fin a \<and> val a = 0)" and b: "\<not> (is_fin b \<and> val b = 0)"
      by simp_all
    show ?thesis
    proof (cases "outcome (solver_call S x y z a b method)")
      case (Inl e)
      show ?thesis
        unfolding xyzllh_solver_raises[OF l1 a b Inl] by simp
    next
      case (Inr res)
      show ?thesis
        unfolding xyzllh_solver_returns[OF l1 a b Inr] by simp
    qed
  qed
qed

text \<open>The same call from two different states.\<close>

theorem xyzllh_effects_witness:
  "fst (xyzllh start_solver PythonNumbers (Num 1) (Num 0) (Num 0) (Num 2) (Num 1) False ''broyden1''
         \<lparr>iters = 5, stdout = []\<rparr>) =
   fst (xyzllh start_solver PythonNumbers (Num 1) (Num 0) (Num 0) (Num 2) (Num 1) False ''broyden1''
         \<lparr>iters = 0, stdout = [ItersLine 3]\<rparr>)
   \<and> iters (snd (xyzllh start_solver PythonNumbers (Num 1) (Num 0) (Num 0) (Num 2) (Num 1) False
         ''broyden1'' \<lparr>iters = 5, stdout = []\<rparr>)) = 1
   \<and> stdout (snd (xyzllh start_solver PythonNumbers (Num 1) (Num 0) (Num 0) (Num 2) (Num 1) False
         ''broyden1'' \<lparr>iters = 5, stdout = []\<rparr>)) \<noteq> []"
  using xyzllh_effects [where S = start_solver and c = PythonNumbers and x = "Num 1"
      and y = "Num 0" and z = "Num 0" and a = "Num 2" and b = "Num 1" and trace = False
      and st = "\<lparr>iters = 5, stdout = []\<rparr>"
      and st' = "\<lparr>iters = 0, stdout = [ItersLine 3]\<rparr>", of "''broyden1''"]
  by (simp add: xyzllh_fst_cases start_solver_call)

end
